theory Spec2Isabelle
  imports Complex_Main
begin

section \<open>Data model of the prediction service\<close>

text \<open>
  The service of \<^verbatim>\<open>backend/app/services/prediction.py\<close> computes on Python floats.
  A float is a finite number, one of the two infinities, or NaN. A finite float is
  modelled by the real number it denotes. The comparisons of the source are the IEEE
  ones: every comparison with NaN is false. A decimal literal of the source stands for
  the real number written: no float lies between a literal and the double nearest to it,
  so a float compares with either in the same way.
\<close>

datatype pyfloat = Num real | PosInf | NegInf | NaN

text \<open>Python's \<^verbatim>\<open><=\<close> and \<^verbatim>\<open><\<close> on floats; \<^verbatim>\<open>>=\<close> and \<^verbatim>\<open>>\<close> are the same with the arguments swapped.\<close>

fun py_le :: "pyfloat \<Rightarrow> pyfloat \<Rightarrow> bool" where
  "py_le NaN y = False"
| "py_le x NaN = False"
| "py_le NegInf y = True"
| "py_le x PosInf = True"
| "py_le (Num a) (Num b) = (a \<le> b)"
| "py_le x y = False"

fun py_lt :: "pyfloat \<Rightarrow> pyfloat \<Rightarrow> bool" where
  "py_lt NaN y = False"
| "py_lt x NaN = False"
| "py_lt (Num a) (Num b) = (a < b)"
| "py_lt PosInf y = False"
| "py_lt x NegInf = False"
| "py_lt x y = True"

definition py_ge :: "pyfloat \<Rightarrow> pyfloat \<Rightarrow> bool" where
  "py_ge x y = py_le y x"

definition py_gt :: "pyfloat \<Rightarrow> pyfloat \<Rightarrow> bool" where
  "py_gt x y = py_lt y x"

text \<open>
  A parameter dictionary \<^verbatim>\<open>Dict[str, float]\<close> is a partial map from the parameter name
  to its value.
\<close>

type_synonym params = "string \<rightharpoonup> pyfloat"

text \<open>\<^verbatim>\<open>data.get(key, default)\<close> of a Python dictionary.\<close>

definition get_default :: "params \<Rightarrow> string \<Rightarrow> pyfloat \<Rightarrow> pyfloat" where
  "get_default data k d = (case data k of None \<Rightarrow> d | Some v \<Rightarrow> v)"

text \<open>Every exception of the source is a value; \<^verbatim>\<open>except Exception\<close> catches each of them.\<close>

datatype error = ModelError | ValidationError

section \<open>The weighted water quality score\<close>

text \<open>
  \<^verbatim>\<open>_calculate_water_quality_score\<close>: the pair \<open>(score, total_weight)\<close> is threaded
  through the three blocks of the source, each guarded by \<^verbatim>\<open>key in data\<close>.
  The sums and the quotient of the weights are computed on the real numbers.
\<close>

definition score_ph :: "params \<Rightarrow> real \<times> real \<Rightarrow> real \<times> real" where
  "score_ph data st =
     (case data ''ph'' of
        None \<Rightarrow> st
      | Some ph \<Rightarrow>
          (let weight = 1.5; score = fst st; total_weight = snd st + weight in
           if py_le (Num 6.5) ph \<and> py_le ph (Num 8.5) then (score + weight * 1.0, total_weight)
           else if py_le (Num 6.0) ph \<and> py_le ph (Num 9.0) then (score + weight * 0.7, total_weight)
           else (score + weight * 0.3, total_weight)))"

definition score_temperature :: "params \<Rightarrow> real \<times> real \<Rightarrow> real \<times> real" where
  "score_temperature data st =
     (case data ''temperature'' of
        None \<Rightarrow> st
      | Some temp \<Rightarrow>
          (let weight = 1.0; score = fst st; total_weight = snd st + weight in
           if py_le (Num 20) temp \<and> py_le temp (Num 30) then (score + weight * 1.0, total_weight)
           else if py_le (Num 15) temp \<and> py_le temp (Num 35) then (score + weight * 0.7, total_weight)
           else (score + weight * 0.3, total_weight)))"

definition score_dissolved_oxygen :: "params \<Rightarrow> real \<times> real \<Rightarrow> real \<times> real" where
  "score_dissolved_oxygen data st =
     (case data ''dissolved_oxygen'' of
        None \<Rightarrow> st
      | Some do \<Rightarrow>
          (let weight = 2.0; score = fst st; total_weight = snd st + weight in
           if py_ge do (Num 6.0) then (score + weight * 1.0, total_weight)
           else if py_ge do (Num 4.0) then (score + weight * 0.7, total_weight)
           else (score + weight * 0.3, total_weight)))"

definition calculate_water_quality_score :: "params \<Rightarrow> real" where
  "calculate_water_quality_score data =
     (let st = score_dissolved_oxygen data (score_temperature data (score_ph data (0, 0)));
          score = fst st; total_weight = snd st in
      if total_weight > 0 then (score / total_weight) * 10 else 5.0)"

section \<open>The banded water quality score and the rule table of the basic tier\<close>

text \<open>
  Rounding to the nearest binary64 float, ties to even, for a real in the range of the
  normal floats: the magnitude is doubled or halved until it lies in \<open>[2^52, 2^53)\<close>,
  rounded to an integer, and scaled back. The fuel exceeds the number of steps that any
  magnitude between the least and the greatest normal float needs.
\<close>

definition round_half_even :: "real \<Rightarrow> int" where
  "round_half_even x =
     (let f = \<lfloor>x\<rfloor>; d = x - of_int f in
      if d < 1 / 2 then f else if 1 / 2 < d then f + 1 else if even f then f else f + 1)"

fun scale_to_53_bits :: "nat \<Rightarrow> real \<Rightarrow> int \<Rightarrow> real \<times> int" where
  "scale_to_53_bits 0 m e = (m, e)"
| "scale_to_53_bits (Suc fuel) m e =
     (if m < 2 ^ 52 then scale_to_53_bits fuel (2 * m) (e - 1)
      else if 2 ^ 53 \<le> m then scale_to_53_bits fuel (m / 2) (e + 1)
      else (m, e))"

definition pow2 :: "int \<Rightarrow> real" where
  "pow2 e = (if 0 \<le> e then 2 ^ nat e else 1 / 2 ^ nat (- e))"

definition round64 :: "real \<Rightarrow> real" where
  "round64 x =
     (if x = 0 then 0
      else (let (m, e) = scale_to_53_bits 2200 \<bar>x\<bar> 0
            in sgn x * of_int (round_half_even m) * pow2 e))"

text \<open>
  The simplified score of \<^verbatim>\<open>predict_basic\<close>: an integer counter that each of the three
  \<^verbatim>\<open>if/elif/else\<close> blocks increases by 3, 2 or 1, then \<^verbatim>\<open>(water_quality_score / 9) * 10\<close>.
  The quotient of the two integers and its product with 10 are each rounded to a float,
  as Python's true division and float multiplication do.
\<close>

definition normalize_to_ten :: "int \<Rightarrow> real" where
  "normalize_to_ten water_quality_score =
     round64 (round64 (real_of_int water_quality_score / 9) * 10)"

definition simplified_water_quality_score :: "pyfloat \<Rightarrow> pyfloat \<Rightarrow> pyfloat \<Rightarrow> real" where
  "simplified_water_quality_score ph temperature turbidity =
     (let water_quality_score = (0::int);
          water_quality_score =
            (if py_le (Num 6.5) ph \<and> py_le ph (Num 8.5) then water_quality_score + 3
             else if py_le (Num 6.0) ph \<and> py_le ph (Num 9.0) then water_quality_score + 2
             else water_quality_score + 1);
          water_quality_score =
            (if py_le (Num 22) temperature \<and> py_le temperature (Num 30) then water_quality_score + 3
             else if py_le (Num 18) temperature \<and> py_le temperature (Num 32) then water_quality_score + 2
             else water_quality_score + 1);
          water_quality_score =
            (if py_le (Num 30) turbidity \<and> py_le turbidity (Num 80) then water_quality_score + 3
             else if py_le (Num 20) turbidity \<and> py_le turbidity (Num 100) then water_quality_score + 2
             else water_quality_score + 1)
      in normalize_to_ten water_quality_score)"

text \<open>The four conditions of the rule-based fallback, in the order of the source.\<close>

definition tilapia_rule :: "pyfloat \<Rightarrow> pyfloat \<Rightarrow> pyfloat \<Rightarrow> bool" where
  "tilapia_rule ph temperature turbidity =
     (py_le (Num 6.5) ph \<and> py_le ph (Num 7.5) \<and> py_le (Num 25) temperature \<and> py_le temperature (Num 30)
      \<and> py_le (Num 30) turbidity \<and> py_le turbidity (Num 60))"

definition catfish_rule :: "pyfloat \<Rightarrow> pyfloat \<Rightarrow> pyfloat \<Rightarrow> bool" where
  "catfish_rule ph temperature turbidity =
     (py_le (Num 6.0) ph \<and> py_le ph (Num 7.0) \<and> py_le (Num 24) temperature \<and> py_le temperature (Num 28)
      \<and> py_le (Num 20) turbidity \<and> py_le turbidity (Num 50))"

definition carp_rule :: "pyfloat \<Rightarrow> pyfloat \<Rightarrow> pyfloat \<Rightarrow> bool" where
  "carp_rule ph temperature turbidity =
     (py_le (Num 6.5) ph \<and> py_le ph (Num 8.0) \<and> py_le (Num 20) temperature \<and> py_le temperature (Num 26)
      \<and> py_le (Num 30) turbidity \<and> py_le turbidity (Num 70))"

definition trout_rule :: "pyfloat \<Rightarrow> pyfloat \<Rightarrow> pyfloat \<Rightarrow> bool" where
  "trout_rule ph temperature turbidity =
     (py_le (Num 6.5) ph \<and> py_le ph (Num 8.0) \<and> py_le (Num 10) temperature \<and> py_le temperature (Num 18)
      \<and> py_le (Num 5) turbidity \<and> py_le turbidity (Num 25))"

text \<open>
  The \<^verbatim>\<open>except\<close> branch of \<^verbatim>\<open>predict_basic\<close>: the pair (predicted_species, confidence),
  with the default (Tilapia, 0.7) when no condition holds.
\<close>

definition rule_based_prediction :: "pyfloat \<Rightarrow> pyfloat \<Rightarrow> pyfloat \<Rightarrow> string \<times> real" where
  "rule_based_prediction ph temperature turbidity =
     (if tilapia_rule ph temperature turbidity then (''Tilapia'', 0.85)
      else if catfish_rule ph temperature turbidity then (''Catfish'', 0.80)
      else if carp_rule ph temperature turbidity then (''Carp'', 0.75)
      else if trout_rule ph temperature turbidity then (''Trout'', 0.90)
      else (''Tilapia'', 0.7))"

section \<open>The parameter analyzer\<close>

text \<open>
  One record of the analysis dictionary; \<open>val\<close> is the key \<^verbatim>\<open>'value'\<close> of the source,
  a recommendation of \<^verbatim>\<open>None\<close> is \<open>None\<close>. The test \<^verbatim>\<open>if ph:\<close> on the result of
  \<^verbatim>\<open>data.get('ph')\<close> fails when the key is missing and when the value is 0.
\<close>

record ParameterAnalysis =
  val :: pyfloat
  status :: string
  recommendation :: "string option"

type_synonym analysis = "string \<rightharpoonup> ParameterAnalysis"

definition analyze_ph :: "params \<Rightarrow> analysis \<Rightarrow> analysis" where
  "analyze_ph data analysis =
     (case data ''ph'' of
        None \<Rightarrow> analysis
      | Some ph \<Rightarrow>
          if ph = Num 0 then analysis
          else
            (let ph_status = (if py_le (Num 6.5) ph \<and> py_le ph (Num 8.5) then ''optimal'' else ''suboptimal'');
                 ph_recommendation =
                   (if py_lt ph (Num 6.5) then
                      Some ''Consider adding limestone or calcium carbonate to increase pH''
                    else if py_gt ph (Num 8.5) then
                      Some ''Consider adding natural acids like peat or driftwood to decrease pH''
                    else None)
             in analysis(''ph'' \<mapsto>
                  \<lparr>val = ph, status = ph_status, recommendation = ph_recommendation\<rparr>)))"

definition analyze_temperature :: "params \<Rightarrow> analysis \<Rightarrow> analysis" where
  "analyze_temperature data analysis =
     (case data ''temperature'' of
        None \<Rightarrow> analysis
      | Some temp \<Rightarrow>
          if temp = Num 0 then analysis
          else
            (let temp_status = (if py_le (Num 20) temp \<and> py_le temp (Num 30) then ''optimal'' else ''suboptimal'');
                 temp_recommendation =
                   (if py_lt temp (Num 20) then
                      Some ''Consider using heaters to increase water temperature''
                    else if py_gt temp (Num 30) then
                      Some ''Consider cooling methods like shade or water exchange''
                    else None)
             in analysis(''temperature'' \<mapsto>
                  \<lparr>val = temp, status = temp_status, recommendation = temp_recommendation\<rparr>)))"

definition analyze_turbidity :: "params \<Rightarrow> analysis \<Rightarrow> analysis" where
  "analyze_turbidity data analysis =
     (case data ''turbidity'' of
        None \<Rightarrow> analysis
      | Some turbidity \<Rightarrow>
          if turbidity = Num 0 then analysis
          else
            (let turbidity_status =
                   (if py_le (Num 30) turbidity \<and> py_le turbidity (Num 80) then ''optimal'' else ''suboptimal'');
                 turbidity_recommendation =
                   (if py_lt turbidity (Num 30) then
                      Some ''Water is very clear, which may indicate low productivity''
                    else if py_gt turbidity (Num 80) then
                      Some ''Water is too cloudy, consider filtration or water exchange''
                    else None)
             in analysis(''turbidity'' \<mapsto>
                  \<lparr>val = turbidity, status = turbidity_status,
                   recommendation = turbidity_recommendation\<rparr>)))"

definition analyze_parameters_basic :: "params \<Rightarrow> analysis" where
  "analyze_parameters_basic data =
     analyze_turbidity data (analyze_temperature data (analyze_ph data Map.empty))"

definition analyze_dissolved_oxygen :: "params \<Rightarrow> analysis \<Rightarrow> analysis" where
  "analyze_dissolved_oxygen data analysis =
     (case data ''dissolved_oxygen'' of
        None \<Rightarrow> analysis
      | Some do \<Rightarrow>
          if do = Num 0 then analysis
          else
            (let do_status = (if py_le (Num 5) do \<and> py_le do (Num 9) then ''optimal'' else ''suboptimal'');
                 do_recommendation =
                   (if py_lt do (Num 5) then
                      Some ''Low oxygen levels. Consider aeration or reducing fish density''
                    else if py_gt do (Num 9) then
                      Some ''High oxygen levels, possibly due to excessive algae growth''
                    else None)
             in analysis(''dissolved_oxygen'' \<mapsto>
                  \<lparr>val = do, status = do_status, recommendation = do_recommendation\<rparr>)))"

definition analyze_ammonia :: "params \<Rightarrow> analysis \<Rightarrow> analysis" where
  "analyze_ammonia data analysis =
     (case data ''ammonia'' of
        None \<Rightarrow> analysis
      | Some ammonia \<Rightarrow>
          if ammonia = Num 0 then analysis
          else
            (let ammonia_status = (if py_lt ammonia (Num 0.1) then ''optimal'' else ''suboptimal'');
                 ammonia_recommendation =
                   (if py_ge ammonia (Num 0.1) then
                      Some ''High ammonia levels. Reduce feeding and increase water exchange''
                    else None)
             in analysis(''ammonia'' \<mapsto>
                  \<lparr>val = ammonia, status = ammonia_status,
                   recommendation = ammonia_recommendation\<rparr>)))"

definition analyze_nitrite :: "params \<Rightarrow> analysis \<Rightarrow> analysis" where
  "analyze_nitrite data analysis =
     (case data ''nitrite'' of
        None \<Rightarrow> analysis
      | Some nitrite \<Rightarrow>
          if nitrite = Num 0 then analysis
          else
            (let nitrite_status = (if py_lt nitrite (Num 0.05) then ''optimal'' else ''suboptimal'');
                 nitrite_recommendation =
                   (if py_ge nitrite (Num 0.05) then
                      Some ''High nitrite levels. Check biofilter and reduce feeding''
                    else None)
             in analysis(''nitrite'' \<mapsto>
                  \<lparr>val = nitrite, status = nitrite_status,
                   recommendation = nitrite_recommendation\<rparr>)))"

definition analyze_parameters_advanced :: "params \<Rightarrow> analysis" where
  "analyze_parameters_advanced data =
     analyze_nitrite data (analyze_ammonia data (analyze_dissolved_oxygen data
       (analyze_parameters_basic data)))"

section \<open>The species catalog and the suitability filters\<close>

text \<open>
  \<^verbatim>\<open>FishSpeciesInfo\<close>: every field but the name is optional (\<^verbatim>\<open>FishSpeciesInfo(name=species)\<close>
  is built in the source). An ideal range is the two-element list \<^verbatim>\<open>[low, high]\<close> of
  the source, kept as a pair.
\<close>

record FishSpeciesInfo =
  name :: string
  scientific_name :: "string option"
  ideal_ph_range :: "(real \<times> real) option"
  ideal_temperature_range :: "(real \<times> real) option"
  ideal_turbidity_range :: "(real \<times> real) option"
  description :: "string option"

text \<open>
  \<^verbatim>\<open>_initialize_species_info\<close>. A Python dictionary iterates in insertion order, so the
  catalog is the association list of its items in the order of the literal.
\<close>

definition initialize_species_info :: "(string \<times> FishSpeciesInfo) list" where
  "initialize_species_info =
     [(''Tilapia'',
       \<lparr>name = ''Tilapia'', scientific_name = Some ''Oreochromis niloticus'',
        ideal_ph_range = Some (6.5, 8.0), ideal_temperature_range = Some (25.0, 30.0),
        ideal_turbidity_range = Some (30.0, 80.0),
        description = Some
          ''Tilapia is a hardy fish that can tolerate a wide range of water conditions. It's popular in aquaculture due to its fast growth rate and adaptability.''\<rparr>),
      (''Catfish'',
       \<lparr>name = ''Catfish'', scientific_name = Some ''Clarias gariepinus'',
        ideal_ph_range = Some (6.0, 8.0), ideal_temperature_range = Some (24.0, 28.0),
        ideal_turbidity_range = Some (20.0, 60.0),
        description = Some
          ''Catfish are bottom-dwelling fish that can tolerate low oxygen levels and poor water quality. They are widely farmed for their high-quality meat.''\<rparr>),
      (''Carp'',
       \<lparr>name = ''Carp'', scientific_name = Some ''Cyprinus carpio'',
        ideal_ph_range = Some (6.5, 9.0), ideal_temperature_range = Some (20.0, 28.0),
        ideal_turbidity_range = Some (30.0, 70.0),
        description = Some
          ''Carp is one of the most widely cultivated freshwater fish. It's tolerant of poor water conditions and can survive in water with low oxygen levels.''\<rparr>),
      (''Salmon'',
       \<lparr>name = ''Salmon'', scientific_name = Some ''Salmo salar'',
        ideal_ph_range = Some (6.5, 8.0), ideal_temperature_range = Some (10.0, 16.0),
        ideal_turbidity_range = Some (5.0, 20.0),
        description = Some
          ''Salmon require clean, cold, oxygen-rich water. They are sensitive to water quality changes and need pristine conditions for optimal growth.''\<rparr>),
      (''Trout'',
       \<lparr>name = ''Trout'', scientific_name = Some ''Oncorhynchus mykiss'',
        ideal_ph_range = Some (6.5, 8.0), ideal_temperature_range = Some (12.0, 18.0),
        ideal_turbidity_range = Some (5.0, 25.0),
        description = Some
          ''Trout are cold-water fish that require high-quality water with good oxygen levels. They're sensitive to pollution and temperature changes.''\<rparr>),
      (''Shrimp'',
       \<lparr>name = ''Shrimp'', scientific_name = Some ''Litopenaeus vannamei'',
        ideal_ph_range = Some (7.0, 8.5), ideal_temperature_range = Some (26.0, 32.0),
        ideal_turbidity_range = Some (30.0, 60.0),
        description = Some
          ''Shrimp are highly sensitive to water quality parameters. They require stable conditions with careful management of ammonia and nitrite levels.''\<rparr>),
      (''Goldfish'',
       \<lparr>name = ''Goldfish'', scientific_name = Some ''Carassius auratus'',
        ideal_ph_range = Some (6.0, 8.0), ideal_temperature_range = Some (20.0, 25.0),
        ideal_turbidity_range = Some (20.0, 50.0),
        description = Some
          ''Goldfish are hardy freshwater fish that can adapt to various water conditions. They're popular ornamental fish and can tolerate cooler temperatures.''\<rparr>)]"

definition fish_species_info :: "(string \<times> FishSpeciesInfo) list" where
  "fish_species_info = initialize_species_info"

text \<open>
  The condition of the loop body of \<^verbatim>\<open>_get_suitable_species_basic\<close>, with the fallback
  ranges that \<^verbatim>\<open>info.ideal_ph_range or [6.0, 8.5]\<close> and its two siblings supply.
\<close>

definition within_ideal_ranges :: "FishSpeciesInfo \<Rightarrow> pyfloat \<Rightarrow> pyfloat \<Rightarrow> pyfloat \<Rightarrow> bool" where
  "within_ideal_ranges info ph temperature turbidity =
     (let ph_range = (case ideal_ph_range info of None \<Rightarrow> (6.0, 8.5) | Some r \<Rightarrow> r);
          temp_range = (case ideal_temperature_range info of None \<Rightarrow> (18.0, 32.0) | Some r \<Rightarrow> r);
          turbidity_range = (case ideal_turbidity_range info of None \<Rightarrow> (20.0, 80.0) | Some r \<Rightarrow> r)
      in py_le (Num (fst ph_range)) ph \<and> py_le ph (Num (snd ph_range))
         \<and> py_le (Num (fst temp_range)) temperature \<and> py_le temperature (Num (snd temp_range))
         \<and> py_le (Num (fst turbidity_range)) turbidity
         \<and> py_le turbidity (Num (snd turbidity_range)))"

text \<open>The \<^verbatim>\<open>for\<close> loop over the items of the catalog; the last argument is the list appended to.\<close>

fun suitable_basic_loop ::
  "(string \<times> FishSpeciesInfo) list \<Rightarrow> pyfloat \<Rightarrow> pyfloat \<Rightarrow> pyfloat \<Rightarrow> string list \<Rightarrow> string list" where
  "suitable_basic_loop [] ph temperature turbidity suitable_species = suitable_species"
| "suitable_basic_loop ((species_name, info) # items) ph temperature turbidity suitable_species =
     (if within_ideal_ranges info ph temperature turbidity
      then suitable_basic_loop items ph temperature turbidity (suitable_species @ [species_name])
      else suitable_basic_loop items ph temperature turbidity suitable_species)"

definition get_suitable_species_basic :: "params \<Rightarrow> string list" where
  "get_suitable_species_basic data =
     (let ph = get_default data ''ph'' (Num 7.0);
          temperature = get_default data ''temperature'' (Num 25.0);
          turbidity = get_default data ''turbidity'' (Num 50.0)
      in suitable_basic_loop fish_species_info ph temperature turbidity [])"

text \<open>
  The per-species criteria of \<^verbatim>\<open>_get_suitable_species_advanced\<close>: the three branches of the
  loop body, each appending the species when its inner condition holds.
\<close>

definition advanced_criteria :: "string \<Rightarrow> pyfloat \<Rightarrow> pyfloat \<Rightarrow> pyfloat \<Rightarrow> bool" where
  "advanced_criteria species do ammonia nitrite =
     (if species = ''Salmon'' \<or> species = ''Trout''
      then py_ge do (Num 7.0) \<and> py_lt ammonia (Num 0.05) \<and> py_lt nitrite (Num 0.01)
      else if species = ''Tilapia'' \<or> species = ''Catfish'' \<or> species = ''Carp''
      then py_ge do (Num 4.0)
      else py_ge do (Num 5.0) \<and> py_lt ammonia (Num 0.1) \<and> py_lt nitrite (Num 0.05))"

fun suitable_advanced_loop ::
  "string list \<Rightarrow> pyfloat \<Rightarrow> pyfloat \<Rightarrow> pyfloat \<Rightarrow> string list \<Rightarrow> string list" where
  "suitable_advanced_loop [] do ammonia nitrite suitable_species = suitable_species"
| "suitable_advanced_loop (species # rest) do ammonia nitrite suitable_species =
     (if advanced_criteria species do ammonia nitrite
      then suitable_advanced_loop rest do ammonia nitrite (suitable_species @ [species])
      else suitable_advanced_loop rest do ammonia nitrite suitable_species)"

definition get_suitable_species_advanced :: "params \<Rightarrow> string list" where
  "get_suitable_species_advanced data =
     (let suitable_from_basic = get_suitable_species_basic data;
          do = get_default data ''dissolved_oxygen'' (Num 6.0);
          ammonia = get_default data ''ammonia'' (Num 0.05);
          nitrite = get_default data ''nitrite'' (Num 0.01)
      in suitable_advanced_loop suitable_from_basic do ammonia nitrite [])"

section \<open>The prediction pipeline\<close>

text \<open>
  The request schemas and the three model classes are imported by the source from other
  modules. A request is the record of its numeric fields; in the model the advanced
  request extends the basic one by the eleven further measurements, so that ph,
  temperature and turbidity are read by the same names from both. A model is the function that its
  \<^verbatim>\<open>predict\<close> method computes, \<open>Inl\<close> when the call raises (reading the two keys of
  the returned dictionary is part of the call). The water quality model carries the
  truth value of its attribute \<^verbatim>\<open>model\<close> beside its \<^verbatim>\<open>predict\<close>. The constructor
  \<^verbatim>\<open>BasicFishPredictionRequest(...)\<close> validates its arguments; which triples it accepts
  is the predicate \<open>basic_request_valid\<close> of the service.
\<close>

record BasicFishPredictionRequest =
  ph :: pyfloat
  temperature :: pyfloat
  turbidity :: pyfloat

record AdvancedFishPredictionRequest = BasicFishPredictionRequest +
  dissolved_oxygen :: pyfloat
  bod :: pyfloat
  co2 :: pyfloat
  alkalinity :: pyfloat
  hardness :: pyfloat
  calcium :: pyfloat
  ammonia :: pyfloat
  nitrite :: pyfloat
  phosphorus :: pyfloat
  h2s :: pyfloat
  plankton :: pyfloat

record Prediction =
  predicted_species :: string
  confidence :: real

record PredictionResult = Prediction +
  water_quality_score :: "real option"
  parameter_analysis :: analysis
  suitable_species :: "FishSpeciesInfo list"

record WaterQualityModel =
  model :: bool
  wq_predict :: "params \<Rightarrow> error + real"

record PredictionService =
  basic_model :: "params \<Rightarrow> error + Prediction"
  advanced_model :: "params \<Rightarrow> error + Prediction"
  water_quality_model :: WaterQualityModel
  basic_request_valid :: "pyfloat \<Rightarrow> pyfloat \<Rightarrow> pyfloat \<Rightarrow> bool"

definition new_BasicFishPredictionRequest ::
  "PredictionService \<Rightarrow> pyfloat \<Rightarrow> pyfloat \<Rightarrow> pyfloat \<Rightarrow> error + BasicFishPredictionRequest" where
  "new_BasicFishPredictionRequest self p t u =
     (if basic_request_valid self p t u then Inr \<lparr>ph = p, temperature = t, turbidity = u\<rparr>
      else Inl ValidationError)"

text \<open>\<^verbatim>\<open>self.fish_species_info.get(species, FishSpeciesInfo(name=species))\<close>.\<close>

definition species_info_of :: "string \<Rightarrow> FishSpeciesInfo" where
  "species_info_of species =
     (case map_of fish_species_info species of
        Some info \<Rightarrow> info
      | None \<Rightarrow> \<lparr>name = species, scientific_name = None, ideal_ph_range = None,
                 ideal_temperature_range = None, ideal_turbidity_range = None,
                 description = None\<rparr>)"

definition basic_input_data :: "BasicFishPredictionRequest \<Rightarrow> params" where
  "basic_input_data data =
     [''ph'' \<mapsto> ph data, ''temperature'' \<mapsto> temperature data, ''turbidity'' \<mapsto> turbidity data]"

definition predict_basic :: "PredictionService \<Rightarrow> BasicFishPredictionRequest \<Rightarrow> PredictionResult" where
  "predict_basic self data =
     (let input_data = basic_input_data data;
          prediction =
            (case basic_model self input_data of
               Inr prediction_result \<Rightarrow>
                 (predicted_species prediction_result, confidence prediction_result)
             | Inl e \<Rightarrow> rule_based_prediction (ph data) (temperature data) (turbidity data));
          score = simplified_water_quality_score (ph data) (temperature data) (turbidity data);
          analysis = analyze_parameters_basic input_data;
          suitable = get_suitable_species_basic input_data
      in \<lparr>predicted_species = fst prediction, confidence = snd prediction,
          water_quality_score = Some score, parameter_analysis = analysis,
          suitable_species = map species_info_of suitable\<rparr>)"

definition advanced_input_data :: "AdvancedFishPredictionRequest \<Rightarrow> params" where
  "advanced_input_data data =
     [''temperature'' \<mapsto> temperature data, ''turbidity'' \<mapsto> turbidity data,
      ''dissolved_oxygen'' \<mapsto> dissolved_oxygen data, ''bod'' \<mapsto> bod data,
      ''co2'' \<mapsto> co2 data, ''ph'' \<mapsto> ph data, ''alkalinity'' \<mapsto> alkalinity data,
      ''hardness'' \<mapsto> hardness data, ''calcium'' \<mapsto> calcium data,
      ''ammonia'' \<mapsto> ammonia data, ''nitrite'' \<mapsto> nitrite data,
      ''phosphorus'' \<mapsto> phosphorus data, ''h2s'' \<mapsto> h2s data, ''plankton'' \<mapsto> plankton data]"

text \<open>
  The inner \<^verbatim>\<open>try\<close> of \<^verbatim>\<open>predict_advanced\<close>: the score starts as \<^verbatim>\<open>None\<close>, the model is
  called only when its attribute \<^verbatim>\<open>model\<close> is true, and the weighted score is computed
  in the \<^verbatim>\<open>except\<close> branch only.
\<close>

definition advanced_water_quality_score :: "PredictionService \<Rightarrow> params \<Rightarrow> real option" where
  "advanced_water_quality_score self input_data =
     (if model (water_quality_model self) then
        (case wq_predict (water_quality_model self) input_data of
           Inr score \<Rightarrow> Some score
         | Inl e \<Rightarrow> Some (calculate_water_quality_score input_data))
      else None)"

text \<open>
  The outer \<^verbatim>\<open>try\<close>: when the advanced model raises, the basic request is built from
  the three basic fields and \<^verbatim>\<open>predict_basic\<close> answers; an exception raised there is
  raised again.
\<close>

definition predict_advanced ::
  "PredictionService \<Rightarrow> AdvancedFishPredictionRequest \<Rightarrow> error + PredictionResult" where
  "predict_advanced self data =
     (let input_data = advanced_input_data data in
      case advanced_model self input_data of
        Inr prediction_result \<Rightarrow>
          (let score = advanced_water_quality_score self input_data;
               analysis = analyze_parameters_advanced input_data;
               suitable = get_suitable_species_advanced input_data
           in Inr \<lparr>predicted_species = predicted_species prediction_result,
                   confidence = confidence prediction_result,
                   water_quality_score = score, parameter_analysis = analysis,
                   suitable_species = map species_info_of suitable\<rparr>)
      | Inl e \<Rightarrow>
          (case new_BasicFishPredictionRequest self (ph data) (temperature data) (turbidity data) of
             Inr basic_data \<Rightarrow> Inr (predict_basic self basic_data)
           | Inl inner_e \<Rightarrow> Inl inner_e))"

section \<open>Example services and inputs\<close>

text \<open>Cold, clear water with no dissolved oxygen, ammonia or nitrite reading.\<close>

definition cold_water :: params where
  "cold_water = [''ph'' \<mapsto> Num 7.0, ''temperature'' \<mapsto> Num 14, ''turbidity'' \<mapsto> Num 10]"

text \<open>Warm pond water, the input of the rule-table example of the specification.\<close>

definition warm_pond :: params where
  "warm_pond = [''ph'' \<mapsto> Num 7.0, ''temperature'' \<mapsto> Num 27, ''turbidity'' \<mapsto> Num 45]"

definition warm_pond_basic_request :: BasicFishPredictionRequest where
  "warm_pond_basic_request = \<lparr>ph = Num 7.0, temperature = Num 27, turbidity = Num 45\<rparr>"

definition warm_pond_request :: AdvancedFishPredictionRequest where
  "warm_pond_request =
     \<lparr>ph = Num 7.0, temperature = Num 27, turbidity = Num 45,
      dissolved_oxygen = Num 6.5, bod = Num 2, co2 = Num 5, alkalinity = Num 100,
      hardness = Num 120, calcium = Num 40, ammonia = Num 0.02, nitrite = Num 0.01,
      phosphorus = Num 0.1, h2s = Num 0.001, plankton = Num 3000\<rparr>"

text \<open>A reading with a pH of exactly 0 and little dissolved oxygen, and the entry expected for the latter.\<close>

definition sparse_reading :: params where
  "sparse_reading =
     [''ph'' \<mapsto> Num 0, ''temperature'' \<mapsto> Num 27, ''turbidity'' \<mapsto> Num 45,
      ''dissolved_oxygen'' \<mapsto> Num 3]"

definition low_oxygen_entry :: ParameterAnalysis where
  "low_oxygen_entry =
     \<lparr>val = Num 3, status = ''suboptimal'',
      recommendation = Some ''Low oxygen levels. Consider aeration or reducing fish density''\<rparr>"

text \<open>Models that always raise or always answer, and schema checks that accept or reject everything.\<close>

definition failing_model :: "params \<Rightarrow> error + Prediction" where
  "failing_model input_data = Inl ModelError"

definition carp_model :: "params \<Rightarrow> error + Prediction" where
  "carp_model input_data = Inr \<lparr>predicted_species = ''Carp'', confidence = 0.9\<rparr>"

definition failing_water_quality_predict :: "params \<Rightarrow> error + real" where
  "failing_water_quality_predict input_data = Inl ModelError"

definition accept_all :: "pyfloat \<Rightarrow> pyfloat \<Rightarrow> pyfloat \<Rightarrow> bool" where
  "accept_all p t u = True"

definition reject_all :: "pyfloat \<Rightarrow> pyfloat \<Rightarrow> pyfloat \<Rightarrow> bool" where
  "reject_all p t u = False"

definition service_without_water_quality_model :: PredictionService where
  "service_without_water_quality_model =
     \<lparr>basic_model = carp_model, advanced_model = carp_model,
      water_quality_model = \<lparr>model = False, wq_predict = failing_water_quality_predict\<rparr>,
      basic_request_valid = accept_all\<rparr>"

definition service_with_failing_water_quality_model :: PredictionService where
  "service_with_failing_water_quality_model =
     \<lparr>basic_model = carp_model, advanced_model = carp_model,
      water_quality_model = \<lparr>model = True, wq_predict = failing_water_quality_predict\<rparr>,
      basic_request_valid = accept_all\<rparr>"

definition service_with_failing_models :: PredictionService where
  "service_with_failing_models =
     \<lparr>basic_model = failing_model, advanced_model = failing_model,
      water_quality_model = \<lparr>model = False, wq_predict = failing_water_quality_predict\<rparr>,
      basic_request_valid = accept_all\<rparr>"

definition service_rejecting_requests :: PredictionService where
  "service_rejecting_requests =
     \<lparr>basic_model = failing_model, advanced_model = failing_model,
      water_quality_model = \<lparr>model = False, wq_predict = failing_water_quality_predict\<rparr>,
      basic_request_valid = reject_all\<rparr>"

text \<open>A reading whose pH is NaN, and the entry that the analyzer stores for it.\<close>

definition nan_reading :: params where
  "nan_reading = [''ph'' \<mapsto> NaN]"

definition nan_entry :: ParameterAnalysis where
  "nan_entry = \<lparr>val = NaN, status = ''suboptimal'', recommendation = None\<rparr>"

text \<open>A basic model that answers with a confidence above 1.\<close>

definition overconfident_model :: "params \<Rightarrow> error + Prediction" where
  "overconfident_model input_data = Inr \<lparr>predicted_species = ''Carp'', confidence = 1.5\<rparr>"

definition service_with_overconfident_model :: PredictionService where
  "service_with_overconfident_model =
     \<lparr>basic_model = overconfident_model, advanced_model = failing_model,
      water_quality_model = \<lparr>model = False, wq_predict = failing_water_quality_predict\<rparr>,
      basic_request_valid = accept_all\<rparr>"

section \<open>The filter predicates\<close>

text \<open>
  What a species must satisfy to be appended by each loop, read off the source: the range
  test on the catalog entry of the species with the three defaults of
  \<^verbatim>\<open>_get_suitable_species_basic\<close>, and the criteria of its group with the three
  defaults of \<^verbatim>\<open>_get_suitable_species_advanced\<close>.
\<close>

definition basic_qualifies :: "params \<Rightarrow> string \<Rightarrow> bool" where
  "basic_qualifies data species =
     (case map_of fish_species_info species of
        None \<Rightarrow> False
      | Some info \<Rightarrow>
          within_ideal_ranges info (get_default data ''ph'' (Num 7.0))
            (get_default data ''temperature'' (Num 25.0)) (get_default data ''turbidity'' (Num 50.0)))"

definition advanced_qualifies :: "params \<Rightarrow> string \<Rightarrow> bool" where
  "advanced_qualifies data species =
     advanced_criteria species (get_default data ''dissolved_oxygen'' (Num 6.0))
       (get_default data ''ammonia'' (Num 0.05)) (get_default data ''nitrite'' (Num 0.01))"

section \<open>The loops as filters\<close>

lemma suitable_basic_loop_filter:
  "suitable_basic_loop items p t u acc =
     acc @ map fst (filter (\<lambda>(n, info). within_ideal_ranges info p t u) items)"
  by (induction items arbitrary: acc) auto

lemma suitable_advanced_loop_filter:
  "suitable_advanced_loop xs d a n acc = acc @ filter (\<lambda>s. advanced_criteria s d a n) xs"
  by (induction xs arbitrary: acc) auto

lemma catalog_names:
  "map fst fish_species_info =
     [''Tilapia'', ''Catfish'', ''Carp'', ''Salmon'', ''Trout'', ''Shrimp'', ''Goldfish'']"
  by (simp add: fish_species_info_def initialize_species_info_def)

lemma distinct_catalog: "distinct (map fst fish_species_info)"
  by (simp add: catalog_names)

lemma filter_items_by_key:
  "distinct (map fst items) \<Longrightarrow>
   map fst (filter (\<lambda>(n, info). P info) items) =
   filter (\<lambda>n. case map_of items n of None \<Rightarrow> False | Some info \<Rightarrow> P info) (map fst items)"
proof (induction items)
  case Nil
  then show ?case by simp
next
  case (Cons x items)
  obtain n info where x: "x = (n, info)" by (cases x)
  from Cons.prems x have fresh: "n \<notin> fst ` set items" and d: "distinct (map fst items)"
    by auto
  have "filter (\<lambda>m. case map_of (x # items) m of None \<Rightarrow> False | Some i \<Rightarrow> P i) (map fst items)
      = filter (\<lambda>m. case map_of items m of None \<Rightarrow> False | Some i \<Rightarrow> P i) (map fst items)"
    using fresh x by (intro filter_cong) auto
  with Cons.IH [OF d] x show ?case by simp
qed

lemma advanced_criteria_neutral:
  "advanced_criteria s (Num 6) (Num (1 / 20)) (Num (1 / 100))
     = (s \<noteq> ''Salmon'' \<and> s \<noteq> ''Trout'')"
  by (auto simp: advanced_criteria_def py_ge_def)

lemma basic_as_filter:
  "get_suitable_species_basic data = filter (basic_qualifies data) (map fst fish_species_info)"
  unfolding get_suitable_species_basic_def Let_def suitable_basic_loop_filter append_Nil
    basic_qualifies_def [abs_def]
  by (rule filter_items_by_key [OF distinct_catalog])

lemma advanced_as_filter:
  "get_suitable_species_advanced data =
     filter (advanced_qualifies data) (get_suitable_species_basic data)"
  by (simp add: get_suitable_species_advanced_def suitable_advanced_loop_filter
      advanced_qualifies_def [abs_def])

lemma cold_water_basic: "get_suitable_species_basic cold_water = [''Salmon'', ''Trout'']"
  by (simp add: get_suitable_species_basic_def get_default_def fish_species_info_def
      initialize_species_info_def within_ideal_ranges_def cold_water_def)

lemma warm_pond_basic:
  "get_suitable_species_basic warm_pond = [''Tilapia'', ''Catfish'', ''Carp'', ''Shrimp'']"
  by (simp add: get_suitable_species_basic_def get_default_def fish_species_info_def
      initialize_species_info_def within_ideal_ranges_def warm_pond_def)

section \<open>Comparisons with a float that is a number\<close>

lemma py_gt_NaN: "py_gt NaN y = False"
  by (cases y) (simp_all add: py_gt_def)

lemma py_ge_NaN: "py_ge NaN y = False"
  by (cases y) (simp_all add: py_ge_def)

lemma py_lt_iff_not_le: "x \<noteq> NaN \<Longrightarrow> py_lt x (Num c) = (\<not> py_le (Num c) x)"
  by (cases x) auto

lemma py_gt_iff_not_le: "x \<noteq> NaN \<Longrightarrow> py_gt x (Num c) = (\<not> py_le x (Num c))"
  by (cases x) (auto simp: py_gt_def)

lemma py_ge_iff_not_lt: "x \<noteq> NaN \<Longrightarrow> py_ge x (Num c) = (\<not> py_lt x (Num c))"
  by (cases x) (auto simp: py_ge_def)

section \<open>The analyzer, one parameter at a time\<close>

lemma analyze_ph_zero: "data k = Some (Num 0) \<Longrightarrow> analyze_ph data an k = an k"
  by (cases "k = ''ph''") (simp_all add: analyze_ph_def Let_def split: option.split)

lemma analyze_ph_other: "k \<noteq> ''ph'' \<Longrightarrow> analyze_ph data an k = an k"
  by (simp add: analyze_ph_def Let_def split: option.split)

lemma analyze_ph_present:
  "data ''ph'' = Some v \<Longrightarrow> v \<noteq> Num 0 \<Longrightarrow>
   \<exists>a. analyze_ph data an ''ph'' = Some a \<and> val a = v
     \<and> (status a = ''optimal'' \<or> status a = ''suboptimal'')"
  by (simp add: analyze_ph_def Let_def)

lemma analyze_ph_cases:
  "analyze_ph data an k = Some a \<Longrightarrow>
   an k = Some a
   \<or> (if val a = NaN then status a = ''suboptimal'' \<and> recommendation a = None
       else (recommendation a \<noteq> None \<longleftrightarrow> status a = ''suboptimal''))"
  by (cases "k = ''ph''")
    (auto simp: analyze_ph_def Let_def py_lt_iff_not_le py_gt_iff_not_le py_ge_iff_not_lt
      py_gt_NaN py_ge_NaN
      split: option.splits if_splits)

lemma analyze_temperature_zero: "data k = Some (Num 0) \<Longrightarrow> analyze_temperature data an k = an k"
  by (cases "k = ''temperature''") (simp_all add: analyze_temperature_def Let_def split: option.split)

lemma analyze_temperature_other: "k \<noteq> ''temperature'' \<Longrightarrow> analyze_temperature data an k = an k"
  by (simp add: analyze_temperature_def Let_def split: option.split)

lemma analyze_temperature_present:
  "data ''temperature'' = Some v \<Longrightarrow> v \<noteq> Num 0 \<Longrightarrow>
   \<exists>a. analyze_temperature data an ''temperature'' = Some a \<and> val a = v
     \<and> (status a = ''optimal'' \<or> status a = ''suboptimal'')"
  by (simp add: analyze_temperature_def Let_def)

lemma analyze_temperature_cases:
  "analyze_temperature data an k = Some a \<Longrightarrow>
   an k = Some a
   \<or> (if val a = NaN then status a = ''suboptimal'' \<and> recommendation a = None
       else (recommendation a \<noteq> None \<longleftrightarrow> status a = ''suboptimal''))"
  by (cases "k = ''temperature''")
    (auto simp: analyze_temperature_def Let_def py_lt_iff_not_le py_gt_iff_not_le py_ge_iff_not_lt
      py_gt_NaN py_ge_NaN
      split: option.splits if_splits)

lemma analyze_turbidity_zero: "data k = Some (Num 0) \<Longrightarrow> analyze_turbidity data an k = an k"
  by (cases "k = ''turbidity''") (simp_all add: analyze_turbidity_def Let_def split: option.split)

lemma analyze_turbidity_other: "k \<noteq> ''turbidity'' \<Longrightarrow> analyze_turbidity data an k = an k"
  by (simp add: analyze_turbidity_def Let_def split: option.split)

lemma analyze_turbidity_present:
  "data ''turbidity'' = Some v \<Longrightarrow> v \<noteq> Num 0 \<Longrightarrow>
   \<exists>a. analyze_turbidity data an ''turbidity'' = Some a \<and> val a = v
     \<and> (status a = ''optimal'' \<or> status a = ''suboptimal'')"
  by (simp add: analyze_turbidity_def Let_def)

lemma analyze_turbidity_cases:
  "analyze_turbidity data an k = Some a \<Longrightarrow>
   an k = Some a
   \<or> (if val a = NaN then status a = ''suboptimal'' \<and> recommendation a = None
       else (recommendation a \<noteq> None \<longleftrightarrow> status a = ''suboptimal''))"
  by (cases "k = ''turbidity''")
    (auto simp: analyze_turbidity_def Let_def py_lt_iff_not_le py_gt_iff_not_le py_ge_iff_not_lt
      py_gt_NaN py_ge_NaN
      split: option.splits if_splits)

lemma analyze_dissolved_oxygen_zero: "data k = Some (Num 0) \<Longrightarrow> analyze_dissolved_oxygen data an k = an k"
  by (cases "k = ''dissolved_oxygen''") (simp_all add: analyze_dissolved_oxygen_def Let_def split: option.split)

lemma analyze_dissolved_oxygen_other: "k \<noteq> ''dissolved_oxygen'' \<Longrightarrow> analyze_dissolved_oxygen data an k = an k"
  by (simp add: analyze_dissolved_oxygen_def Let_def split: option.split)

lemma analyze_dissolved_oxygen_present:
  "data ''dissolved_oxygen'' = Some v \<Longrightarrow> v \<noteq> Num 0 \<Longrightarrow>
   \<exists>a. analyze_dissolved_oxygen data an ''dissolved_oxygen'' = Some a \<and> val a = v
     \<and> (status a = ''optimal'' \<or> status a = ''suboptimal'')"
  by (simp add: analyze_dissolved_oxygen_def Let_def)

lemma analyze_dissolved_oxygen_cases:
  "analyze_dissolved_oxygen data an k = Some a \<Longrightarrow>
   an k = Some a
   \<or> (if val a = NaN then status a = ''suboptimal'' \<and> recommendation a = None
       else (recommendation a \<noteq> None \<longleftrightarrow> status a = ''suboptimal''))"
  by (cases "k = ''dissolved_oxygen''")
    (auto simp: analyze_dissolved_oxygen_def Let_def py_lt_iff_not_le py_gt_iff_not_le py_ge_iff_not_lt
      py_gt_NaN py_ge_NaN
      split: option.splits if_splits)

lemma analyze_ammonia_zero: "data k = Some (Num 0) \<Longrightarrow> analyze_ammonia data an k = an k"
  by (cases "k = ''ammonia''") (simp_all add: analyze_ammonia_def Let_def split: option.split)

lemma analyze_ammonia_other: "k \<noteq> ''ammonia'' \<Longrightarrow> analyze_ammonia data an k = an k"
  by (simp add: analyze_ammonia_def Let_def split: option.split)

lemma analyze_ammonia_present:
  "data ''ammonia'' = Some v \<Longrightarrow> v \<noteq> Num 0 \<Longrightarrow>
   \<exists>a. analyze_ammonia data an ''ammonia'' = Some a \<and> val a = v
     \<and> (status a = ''optimal'' \<or> status a = ''suboptimal'')"
  by (simp add: analyze_ammonia_def Let_def)

lemma analyze_ammonia_cases:
  "analyze_ammonia data an k = Some a \<Longrightarrow>
   an k = Some a
   \<or> (if val a = NaN then status a = ''suboptimal'' \<and> recommendation a = None
       else (recommendation a \<noteq> None \<longleftrightarrow> status a = ''suboptimal''))"
  by (cases "k = ''ammonia''")
    (auto simp: analyze_ammonia_def Let_def py_lt_iff_not_le py_gt_iff_not_le py_ge_iff_not_lt
      py_gt_NaN py_ge_NaN
      split: option.splits if_splits)

lemma analyze_nitrite_zero: "data k = Some (Num 0) \<Longrightarrow> analyze_nitrite data an k = an k"
  by (cases "k = ''nitrite''") (simp_all add: analyze_nitrite_def Let_def split: option.split)

lemma analyze_nitrite_other: "k \<noteq> ''nitrite'' \<Longrightarrow> analyze_nitrite data an k = an k"
  by (simp add: analyze_nitrite_def Let_def split: option.split)

lemma analyze_nitrite_present:
  "data ''nitrite'' = Some v \<Longrightarrow> v \<noteq> Num 0 \<Longrightarrow>
   \<exists>a. analyze_nitrite data an ''nitrite'' = Some a \<and> val a = v
     \<and> (status a = ''optimal'' \<or> status a = ''suboptimal'')"
  by (simp add: analyze_nitrite_def Let_def)

lemma analyze_nitrite_cases:
  "analyze_nitrite data an k = Some a \<Longrightarrow>
   an k = Some a
   \<or> (if val a = NaN then status a = ''suboptimal'' \<and> recommendation a = None
       else (recommendation a \<noteq> None \<longleftrightarrow> status a = ''suboptimal''))"
  by (cases "k = ''nitrite''")
    (auto simp: analyze_nitrite_def Let_def py_lt_iff_not_le py_gt_iff_not_le py_ge_iff_not_lt
      py_gt_NaN py_ge_NaN
      split: option.splits if_splits)

lemmas analyze_zero = analyze_ph_zero analyze_temperature_zero analyze_turbidity_zero
  analyze_dissolved_oxygen_zero analyze_ammonia_zero analyze_nitrite_zero

lemmas analyze_other = analyze_ph_other analyze_temperature_other analyze_turbidity_other
  analyze_dissolved_oxygen_other analyze_ammonia_other analyze_nitrite_other

lemma basic_zero: "data k = Some (Num 0) \<Longrightarrow> analyze_parameters_basic data k = None"
  by (simp add: analyze_parameters_basic_def analyze_zero)

lemma advanced_zero: "data k = Some (Num 0) \<Longrightarrow> analyze_parameters_advanced data k = None"
  by (simp add: analyze_parameters_advanced_def analyze_zero basic_zero)

lemma basic_entry_ph:
  "data ''ph'' = Some v \<Longrightarrow> v \<noteq> Num 0 \<Longrightarrow>
   \<exists>a. analyze_parameters_basic data ''ph'' = Some a \<and> val a = v
     \<and> (status a = ''optimal'' \<or> status a = ''suboptimal'')"
  using analyze_ph_present [of data v "Map.empty"]
  by (simp add: analyze_parameters_basic_def analyze_other)

lemma basic_entry_temperature:
  "data ''temperature'' = Some v \<Longrightarrow> v \<noteq> Num 0 \<Longrightarrow>
   \<exists>a. analyze_parameters_basic data ''temperature'' = Some a \<and> val a = v
     \<and> (status a = ''optimal'' \<or> status a = ''suboptimal'')"
  using analyze_temperature_present [of data v "analyze_ph data Map.empty"]
  by (simp add: analyze_parameters_basic_def analyze_other)

lemma basic_entry_turbidity:
  "data ''turbidity'' = Some v \<Longrightarrow> v \<noteq> Num 0 \<Longrightarrow>
   \<exists>a. analyze_parameters_basic data ''turbidity'' = Some a \<and> val a = v
     \<and> (status a = ''optimal'' \<or> status a = ''suboptimal'')"
  using analyze_turbidity_present [of data v "analyze_temperature data (analyze_ph data Map.empty)"]
  by (simp add: analyze_parameters_basic_def analyze_other)

lemma advanced_entry_ph:
  "data ''ph'' = Some v \<Longrightarrow> v \<noteq> Num 0 \<Longrightarrow>
   \<exists>a. analyze_parameters_advanced data ''ph'' = Some a \<and> val a = v
     \<and> (status a = ''optimal'' \<or> status a = ''suboptimal'')"
  using basic_entry_ph [of data v]
  by (simp add: analyze_parameters_advanced_def analyze_other)

lemma advanced_entry_temperature:
  "data ''temperature'' = Some v \<Longrightarrow> v \<noteq> Num 0 \<Longrightarrow>
   \<exists>a. analyze_parameters_advanced data ''temperature'' = Some a \<and> val a = v
     \<and> (status a = ''optimal'' \<or> status a = ''suboptimal'')"
  using basic_entry_temperature [of data v]
  by (simp add: analyze_parameters_advanced_def analyze_other)

lemma advanced_entry_turbidity:
  "data ''turbidity'' = Some v \<Longrightarrow> v \<noteq> Num 0 \<Longrightarrow>
   \<exists>a. analyze_parameters_advanced data ''turbidity'' = Some a \<and> val a = v
     \<and> (status a = ''optimal'' \<or> status a = ''suboptimal'')"
  using basic_entry_turbidity [of data v]
  by (simp add: analyze_parameters_advanced_def analyze_other)

lemma advanced_entry_dissolved_oxygen:
  "data ''dissolved_oxygen'' = Some v \<Longrightarrow> v \<noteq> Num 0 \<Longrightarrow>
   \<exists>a. analyze_parameters_advanced data ''dissolved_oxygen'' = Some a \<and> val a = v
     \<and> (status a = ''optimal'' \<or> status a = ''suboptimal'')"
  using analyze_dissolved_oxygen_present [of data v "analyze_parameters_basic data"]
  by (simp add: analyze_parameters_advanced_def analyze_other)

lemma advanced_entry_ammonia:
  "data ''ammonia'' = Some v \<Longrightarrow> v \<noteq> Num 0 \<Longrightarrow>
   \<exists>a. analyze_parameters_advanced data ''ammonia'' = Some a \<and> val a = v
     \<and> (status a = ''optimal'' \<or> status a = ''suboptimal'')"
  using analyze_ammonia_present [of data v "analyze_dissolved_oxygen data (analyze_parameters_basic data)"]
  by (simp add: analyze_parameters_advanced_def analyze_other)

lemma advanced_entry_nitrite:
  "data ''nitrite'' = Some v \<Longrightarrow> v \<noteq> Num 0 \<Longrightarrow>
   \<exists>a. analyze_parameters_advanced data ''nitrite'' = Some a \<and> val a = v
     \<and> (status a = ''optimal'' \<or> status a = ''suboptimal'')"
  using analyze_nitrite_present [of data v "analyze_ammonia data (analyze_dissolved_oxygen data (analyze_parameters_basic data))"]
  by (simp add: analyze_parameters_advanced_def analyze_other)

lemma basic_entry:
  assumes "k \<in> {''ph'', ''temperature'', ''turbidity''}"
    and "data k = Some v" and "v \<noteq> Num 0"
  shows "\<exists>a. analyze_parameters_basic data k = Some a \<and> val a = v
     \<and> (status a = ''optimal'' \<or> status a = ''suboptimal'')"
proof -
  from assms(1) have "k = ''ph'' \<or> k = ''temperature'' \<or> k = ''turbidity''"
    by (simp only: insert_iff empty_iff simp_thms)
  then show ?thesis
  proof (elim disjE)
    assume "k = ''ph''"
    with assms(2,3) basic_entry_ph [of data v] show ?thesis by simp
  next
    assume "k = ''temperature''"
    with assms(2,3) basic_entry_temperature [of data v] show ?thesis by simp
  next
    assume "k = ''turbidity''"
    with assms(2,3) basic_entry_turbidity [of data v] show ?thesis by simp
  qed
qed

lemma advanced_entry:
  assumes "k \<in> {''ph'', ''temperature'', ''turbidity'', ''dissolved_oxygen'', ''ammonia'', ''nitrite''}"
    and "data k = Some v" and "v \<noteq> Num 0"
  shows "\<exists>a. analyze_parameters_advanced data k = Some a \<and> val a = v
     \<and> (status a = ''optimal'' \<or> status a = ''suboptimal'')"
proof -
  from assms(1) have "k = ''ph'' \<or> k = ''temperature'' \<or> k = ''turbidity'' \<or> k = ''dissolved_oxygen'' \<or> k = ''ammonia'' \<or> k = ''nitrite''"
    by (simp only: insert_iff empty_iff simp_thms)
  then show ?thesis
  proof (elim disjE)
    assume "k = ''ph''"
    with assms(2,3) advanced_entry_ph [of data v] show ?thesis by simp
  next
    assume "k = ''temperature''"
    with assms(2,3) advanced_entry_temperature [of data v] show ?thesis by simp
  next
    assume "k = ''turbidity''"
    with assms(2,3) advanced_entry_turbidity [of data v] show ?thesis by simp
  next
    assume "k = ''dissolved_oxygen''"
    with assms(2,3) advanced_entry_dissolved_oxygen [of data v] show ?thesis by simp
  next
    assume "k = ''ammonia''"
    with assms(2,3) advanced_entry_ammonia [of data v] show ?thesis by simp
  next
    assume "k = ''nitrite''"
    with assms(2,3) advanced_entry_nitrite [of data v] show ?thesis by simp
  qed
qed

lemma basic_recommendation:
  assumes "analyze_parameters_basic data k = Some a"
  shows "if val a = NaN then status a = ''suboptimal'' \<and> recommendation a = None
     else (recommendation a \<noteq> None \<longleftrightarrow> status a = ''suboptimal'')"
proof -
  from assms have "analyze_turbidity data (analyze_temperature data (analyze_ph data Map.empty)) k
      = Some a"
    by (simp add: analyze_parameters_basic_def)
  then show ?thesis
    by (auto dest!: analyze_turbidity_cases analyze_temperature_cases analyze_ph_cases
        split: if_splits)
qed

lemma advanced_recommendation:
  assumes "analyze_parameters_advanced data k = Some a"
  shows "if val a = NaN then status a = ''suboptimal'' \<and> recommendation a = None
     else (recommendation a \<noteq> None \<longleftrightarrow> status a = ''suboptimal'')"
proof -
  from assms have "analyze_nitrite data (analyze_ammonia data (analyze_dissolved_oxygen data
      (analyze_parameters_basic data))) k = Some a"
    by (simp add: analyze_parameters_advanced_def)
  then show ?thesis
    using basic_recommendation [of data k a]
    by (auto dest!: analyze_nitrite_cases analyze_ammonia_cases analyze_dissolved_oxygen_cases
        split: if_splits)
qed

section \<open>Bounds of the basic tier\<close>

lemma scale_step:
  "0 < fuel \<Longrightarrow> scale_to_53_bits fuel m e =
     (if m < 2 ^ 52 then scale_to_53_bits (fuel - 1) (2 * m) (e - 1)
      else if 2 ^ 53 \<le> m then scale_to_53_bits (fuel - 1) (m / 2) (e + 1)
      else (m, e))"
  by (cases fuel) simp_all

lemmas round64_eval = round64_def scale_step round_half_even_def pow2_def

lemma quotient_3: "round64 (3 / 9) = 6004799503160661 / 2 ^ 54"
  by (simp add: round64_eval)

lemma normalize_3: "normalize_to_ten 3 = 3752999689475413 / 2 ^ 50"
  by (simp add: normalize_to_ten_def quotient_3) (simp add: round64_eval)

lemma normalize_4: "normalize_to_ten 4 = 2501999792983609 / 2 ^ 49"
  by (simp add: normalize_to_ten_def) (simp add: round64_eval)
lemma normalize_5: "normalize_to_ten 5 = 3127499741229511 / 2 ^ 49"
  by (simp add: normalize_to_ten_def) (simp add: round64_eval)
lemma normalize_6: "normalize_to_ten 6 = 3752999689475413 / 2 ^ 49"
  by (simp add: normalize_to_ten_def) (simp add: round64_eval)
lemma normalize_7: "normalize_to_ten 7 = 8756999275442631 / 2 ^ 50"
  by (simp add: normalize_to_ten_def) (simp add: round64_eval)
lemma normalize_8: "normalize_to_ten 8 = 2501999792983609 / 2 ^ 48"
  by (simp add: normalize_to_ten_def) (simp add: round64_eval)
lemma normalize_9: "normalize_to_ten 9 = 10"
  by (simp add: normalize_to_ten_def) (simp add: round64_eval)

lemma simplified_score_cases:
  "simplified_water_quality_score p t u \<in>
     {normalize_to_ten 3, normalize_to_ten 4, normalize_to_ten 5, normalize_to_ten 6,
      normalize_to_ten 7, normalize_to_ten 8, normalize_to_ten 9}"
  by (simp add: simplified_water_quality_score_def Let_def)


lemma simplified_score_bounds:
  "3752999689475413 / 2 ^ 50 \<le> simplified_water_quality_score p t u
   \<and> simplified_water_quality_score p t u \<le> 10"
  using simplified_score_cases [of p t u]
  unfolding normalize_3 normalize_4 normalize_5 normalize_6 normalize_7 normalize_8 normalize_9
  by auto

lemma rule_confidence:
  "snd (rule_based_prediction p t u) \<in> {0.85, 0.80, 0.75, 0.90, 0.7}"
  by (simp add: rule_based_prediction_def)

lemma warm_pond_weighted_score:
  "calculate_water_quality_score (advanced_input_data warm_pond_request) = 10"
  by (simp add: calculate_water_quality_score_def score_ph_def score_temperature_def
      score_dissolved_oxygen_def Let_def advanced_input_data_def warm_pond_request_def
      py_ge_def)

section \<open>Properties\<close>

text \<open>
  C1, as claimed, fails: with a primary model that answers and a water quality model whose
  attribute \<^verbatim>\<open>model\<close> is false, neither \<^verbatim>\<open>predict\<close> nor the weighted scorer is called
  and the returned water_quality_score is \<^verbatim>\<open>None\<close>.
\<close>

theorem unavailable_model_gives_no_score:
  "advanced_model service_without_water_quality_model (advanced_input_data warm_pond_request)
     = Inr \<lparr>predicted_species = ''Carp'', confidence = 0.9\<rparr>
   \<and> \<not> model (water_quality_model service_without_water_quality_model)
   \<and> map_sum id water_quality_score
       (predict_advanced service_without_water_quality_model warm_pond_request) = Inr None"
  by (simp add: predict_advanced_def Let_def service_without_water_quality_model_def
      carp_model_def advanced_water_quality_score_def)

text \<open>
  C1, amended. When the primary species model succeeds, predict_advanced returns a result.
  If the water quality model is available and its \<^verbatim>\<open>predict\<close> call fails, the
  water_quality_score of the result is the weighted score of
  \<^verbatim>\<open>_calculate_water_quality_score\<close> on the input, never \<^verbatim>\<open>None\<close>; if the water quality
  model is unavailable, the water_quality_score is \<^verbatim>\<open>None\<close>.
\<close>

theorem advanced_score_after_primary_success:
  assumes "advanced_model self (advanced_input_data data) = Inr prediction_result"
  shows "\<exists>result. predict_advanced self data = Inr result
     \<and> (\<forall>e. model (water_quality_model self)
            \<and> wq_predict (water_quality_model self) (advanced_input_data data) = Inl e
          \<longrightarrow> water_quality_score result
                = Some (calculate_water_quality_score (advanced_input_data data)))
     \<and> (\<not> model (water_quality_model self) \<longrightarrow> water_quality_score result = None)"
  using assms by (auto simp: predict_advanced_def Let_def advanced_water_quality_score_def)

theorem advanced_score_after_primary_success_witness:
  "map_sum id water_quality_score
     (predict_advanced service_with_failing_water_quality_model warm_pond_request)
     = Inr (Some 10)"
proof -
  have p: "advanced_model service_with_failing_water_quality_model
      (advanced_input_data warm_pond_request)
      = Inr \<lparr>predicted_species = ''Carp'', confidence = 0.9\<rparr>"
    by (simp add: service_with_failing_water_quality_model_def carp_model_def)
  have w: "model (water_quality_model service_with_failing_water_quality_model)
      \<and> wq_predict (water_quality_model service_with_failing_water_quality_model)
          (advanced_input_data warm_pond_request) = Inl ModelError"
    by (simp add: service_with_failing_water_quality_model_def
        failing_water_quality_predict_def)
  from advanced_score_after_primary_success [OF p] w show ?thesis
    by (auto simp: warm_pond_weighted_score)
qed

text \<open>
  C2, as claimed, fails: on cold clear water with no dissolved oxygen, ammonia or nitrite
  reading, Salmon qualifies under the basic filter and is rejected by the advanced one,
  whose default of 6.0 for dissolved oxygen is below the 7.0 that Salmon and Trout need.
\<close>

theorem advanced_defaults_reject_salmon:
  "cold_water ''dissolved_oxygen'' = None \<and> cold_water ''ammonia'' = None
   \<and> cold_water ''nitrite'' = None
   \<and> ''Salmon'' \<in> set (get_suitable_species_basic cold_water)
   \<and> ''Salmon'' \<notin> set (get_suitable_species_advanced cold_water)"
  by (simp add: advanced_as_filter advanced_qualifies_def cold_water_basic get_default_def
    advanced_criteria_def) (simp add: cold_water_def)

text \<open>
  C2, amended. When dissolved_oxygen, ammonia and nitrite are all absent, the advanced
  filter returns the basic filter's result without Salmon and Trout: every other species
  that qualifies under the basic filter is kept, in the same order.
\<close>

theorem advanced_defaults_keep_tolerant_species:
  assumes "data ''dissolved_oxygen'' = None" and "data ''ammonia'' = None"
    and "data ''nitrite'' = None"
  shows "get_suitable_species_advanced data =
     filter (\<lambda>s. s \<noteq> ''Salmon'' \<and> s \<noteq> ''Trout'') (get_suitable_species_basic data)"
  using assms
  by (simp add: get_suitable_species_advanced_def suitable_advanced_loop_filter get_default_def
      advanced_criteria_neutral)

theorem advanced_defaults_keep_tolerant_species_witness:
  "warm_pond ''dissolved_oxygen'' = None \<and> warm_pond ''ammonia'' = None
   \<and> warm_pond ''nitrite'' = None
   \<and> get_suitable_species_advanced warm_pond = [''Tilapia'', ''Catfish'', ''Carp'', ''Shrimp'']"
proof -
  have w: "warm_pond ''dissolved_oxygen'' = None \<and> warm_pond ''ammonia'' = None
      \<and> warm_pond ''nitrite'' = None"
    by (simp add: warm_pond_def)
  show ?thesis
    using advanced_defaults_keep_tolerant_species [of warm_pond] w
    by (simp add: warm_pond_basic)
qed

text \<open>
  C3, as claimed, fails: the input ph = 7.0, temperature = 27, turbidity = 45 satisfies
  both the Tilapia and the Catfish condition of the rule-based fallback.
\<close>

theorem rules_overlap:
  "tilapia_rule (Num 7.0) (Num 27) (Num 45) \<and> catfish_rule (Num 7.0) (Num 27) (Num 45)"
  by (simp add: tilapia_rule_def catfish_rule_def)

text \<open>
  C3, amended. The Trout condition excludes each of the Tilapia, Catfish and Carp
  conditions. The latter three overlap: all three hold at ph = 6.75, temperature = 25.5,
  turbidity = 40. The fallback returns the first of the four, in the order Tilapia,
  Catfish, Carp, Trout, whose condition holds.
\<close>

theorem first_matching_rule_wins:
  "(trout_rule p t u \<longrightarrow> \<not> tilapia_rule p t u \<and> \<not> catfish_rule p t u \<and> \<not> carp_rule p t u)
   \<and> tilapia_rule (Num 6.75) (Num 25.5) (Num 40)
   \<and> catfish_rule (Num 6.75) (Num 25.5) (Num 40)
   \<and> carp_rule (Num 6.75) (Num 25.5) (Num 40)
   \<and> (tilapia_rule p t u \<longrightarrow> rule_based_prediction p t u = (''Tilapia'', 0.85))
   \<and> (\<not> tilapia_rule p t u \<and> catfish_rule p t u \<longrightarrow>
        rule_based_prediction p t u = (''Catfish'', 0.80))
   \<and> (\<not> tilapia_rule p t u \<and> \<not> catfish_rule p t u \<and> carp_rule p t u \<longrightarrow>
        rule_based_prediction p t u = (''Carp'', 0.75))
   \<and> (trout_rule p t u \<longrightarrow> rule_based_prediction p t u = (''Trout'', 0.90))"
proof -
  have excl: "trout_rule p t u \<Longrightarrow>
      \<not> tilapia_rule p t u \<and> \<not> catfish_rule p t u \<and> \<not> carp_rule p t u"
    by (cases t) (auto simp: trout_rule_def tilapia_rule_def catfish_rule_def carp_rule_def)
  have overlap: "tilapia_rule (Num 6.75) (Num 25.5) (Num 40)
      \<and> catfish_rule (Num 6.75) (Num 25.5) (Num 40)
      \<and> carp_rule (Num 6.75) (Num 25.5) (Num 40)"
    by (simp add: tilapia_rule_def catfish_rule_def carp_rule_def)
  show ?thesis
    using excl overlap by (simp add: rule_based_prediction_def)
qed

theorem first_matching_rule_wins_witness:
  "tilapia_rule (Num 6.75) (Num 25.5) (Num 40) \<and> carp_rule (Num 6.75) (Num 25.5) (Num 40)
   \<and> rule_based_prediction (Num 6.75) (Num 25.5) (Num 40) = (''Tilapia'', 0.85)
   \<and> \<not> tilapia_rule (Num 6.75) (Num 24) (Num 40) \<and> catfish_rule (Num 6.75) (Num 24) (Num 40)
   \<and> carp_rule (Num 6.75) (Num 24) (Num 40)
   \<and> rule_based_prediction (Num 6.75) (Num 24) (Num 40) = (''Catfish'', 0.80)
   \<and> trout_rule (Num 7.0) (Num 14) (Num 10)
   \<and> rule_based_prediction (Num 7.0) (Num 14) (Num 10) = (''Trout'', 0.90)"
  using first_matching_rule_wins [of "Num 6.75" "Num 25.5" "Num 40"]
    first_matching_rule_wins [of "Num 6.75" "Num 24" "Num 40"]
    first_matching_rule_wins [of "Num 7" "Num 14" "Num 10"]
  by (simp add: tilapia_rule_def catfish_rule_def carp_rule_def trout_rule_def)

text \<open>
  C4. When the primary advanced model call fails, predict_advanced builds the basic request
  from ph, temperature and turbidity alone and returns exactly what predict_basic returns
  on it; when the delegated call fails (the basic request is rejected), that failure is
  the result of predict_advanced.
\<close>

theorem advanced_degrades_to_basic:
  assumes "advanced_model self (advanced_input_data data) = Inl e"
  shows "(\<forall>basic_data.
        new_BasicFishPredictionRequest self (ph data) (temperature data) (turbidity data)
          = Inr basic_data
        \<longrightarrow> basic_data = \<lparr>ph = ph data, temperature = temperature data,
                          turbidity = turbidity data\<rparr>
            \<and> predict_advanced self data = Inr (predict_basic self basic_data))
     \<and> (\<forall>inner_e.
        new_BasicFishPredictionRequest self (ph data) (temperature data) (turbidity data)
          = Inl inner_e
        \<longrightarrow> predict_advanced self data = Inl inner_e)"
  using assms
  by (auto simp: predict_advanced_def Let_def new_BasicFishPredictionRequest_def
      split: if_splits)

theorem advanced_degrades_to_basic_witness:
  "predict_advanced service_with_failing_models warm_pond_request
     = Inr (predict_basic service_with_failing_models warm_pond_basic_request)
   \<and> predict_advanced service_rejecting_requests warm_pond_request = Inl ValidationError"
proof -
  have a: "advanced_model service_with_failing_models (advanced_input_data warm_pond_request)
      = Inl ModelError"
    by (simp add: service_with_failing_models_def failing_model_def)
  have b: "advanced_model service_rejecting_requests (advanced_input_data warm_pond_request)
      = Inl ModelError"
    by (simp add: service_rejecting_requests_def failing_model_def)
  have c: "new_BasicFishPredictionRequest service_with_failing_models (ph warm_pond_request)
      (temperature warm_pond_request) (turbidity warm_pond_request)
      = Inr warm_pond_basic_request"
    by (simp add: new_BasicFishPredictionRequest_def service_with_failing_models_def
        accept_all_def warm_pond_request_def warm_pond_basic_request_def)
  have d: "new_BasicFishPredictionRequest service_rejecting_requests (ph warm_pond_request)
      (temperature warm_pond_request) (turbidity warm_pond_request)
      = Inl ValidationError"
    by (simp add: new_BasicFishPredictionRequest_def service_rejecting_requests_def
        reject_all_def)
  from advanced_degrades_to_basic [OF a] advanced_degrades_to_basic [OF b] c d
  show ?thesis by simp
qed

text \<open>
  C5, as claimed, fails: when the external basic model answers, predict_basic returns the
  confidence of that answer unchanged, and a model that reports 1.5 yields a result whose
  confidence is 1.5.
\<close>

theorem overconfident_model_passes_through:
  "confidence (predict_basic service_with_overconfident_model warm_pond_basic_request) = 1.5
   \<and> \<not> confidence (predict_basic service_with_overconfident_model warm_pond_basic_request)
         \<le> 1"
  by (simp add: predict_basic_def Let_def service_with_overconfident_model_def
      overconfident_model_def)

text \<open>
  C5, amended. For every basic request the water_quality_score of predict_basic lies in
  [0, 10]. Whenever the external model fails, the confidence is one of 0.85, 0.80, 0.75,
  0.90 and 0.7 and so lies in [0, 1]. Whenever the external model answers, the confidence
  is the one the model reports, so it lies in [0, 1] exactly when the model's does.
\<close>

theorem predict_basic_bounds:
  "(\<exists>w. water_quality_score (predict_basic self data) = Some w \<and> 0 \<le> w \<and> w \<le> 10)
   \<and> (\<forall>e. basic_model self (basic_input_data data) = Inl e \<longrightarrow>
          confidence (predict_basic self data) \<in> {0.85, 0.80, 0.75, 0.90, 0.7}
          \<and> 0 \<le> confidence (predict_basic self data)
          \<and> confidence (predict_basic self data) \<le> 1)
   \<and> (\<forall>prediction_result.
          basic_model self (basic_input_data data) = Inr prediction_result \<longrightarrow>
          confidence (predict_basic self data) = confidence prediction_result)"
proof -
  have conf: "confidence (predict_basic self data) =
      (case basic_model self (basic_input_data data) of
         Inr prediction_result \<Rightarrow> confidence prediction_result
       | Inl e \<Rightarrow> snd (rule_based_prediction (ph data) (temperature data) (turbidity data)))"
    by (simp add: predict_basic_def Let_def split: sum.split)
  have score: "water_quality_score (predict_basic self data) =
      Some (simplified_water_quality_score (ph data) (temperature data) (turbidity data))"
    by (simp add: predict_basic_def Let_def)
  have rule: "snd (rule_based_prediction (ph data) (temperature data) (turbidity data))
      \<in> {0.85, 0.80, 0.75, 0.90, 0.7}"
    by (rule rule_confidence)
  have f: "\<forall>e. basic_model self (basic_input_data data) = Inl e \<longrightarrow>
      confidence (predict_basic self data) \<in> {0.85, 0.80, 0.75, 0.90, 0.7}
      \<and> 0 \<le> confidence (predict_basic self data)
      \<and> confidence (predict_basic self data) \<le> 1"
    using conf rule by auto
  have m: "\<forall>prediction_result.
      basic_model self (basic_input_data data) = Inr prediction_result \<longrightarrow>
      confidence (predict_basic self data) = confidence prediction_result"
    using conf by simp
  have s: "\<exists>w. water_quality_score (predict_basic self data) = Some w \<and> 0 \<le> w \<and> w \<le> 10"
    using score simplified_score_bounds [of "ph data" "temperature data" "turbidity data"]
    by simp
  from s f m show ?thesis by simp
qed

theorem predict_basic_bounds_witness:
  "basic_model service_with_failing_models (basic_input_data warm_pond_basic_request)
     = Inl ModelError
   \<and> confidence (predict_basic service_with_failing_models warm_pond_basic_request) = 0.85
   \<and> basic_model service_without_water_quality_model (basic_input_data warm_pond_basic_request)
     = Inr \<lparr>predicted_species = ''Carp'', confidence = 0.9\<rparr>
   \<and> confidence (predict_basic service_without_water_quality_model warm_pond_basic_request)
     = 0.9
   \<and> water_quality_score (predict_basic service_with_failing_models warm_pond_basic_request)
     = Some 10"
proof -
  have f: "basic_model service_with_failing_models (basic_input_data warm_pond_basic_request)
      = Inl ModelError"
    by (simp add: service_with_failing_models_def failing_model_def)
  have m: "basic_model service_without_water_quality_model
      (basic_input_data warm_pond_basic_request)
      = Inr \<lparr>predicted_species = ''Carp'', confidence = 0.9\<rparr>"
    by (simp add: service_without_water_quality_model_def carp_model_def)
  have v: "confidence (predict_basic service_with_failing_models warm_pond_basic_request) = 0.85
      \<and> water_quality_score (predict_basic service_with_failing_models warm_pond_basic_request)
          = Some 10"
    by (simp add: predict_basic_def Let_def service_with_failing_models_def failing_model_def
        warm_pond_basic_request_def rule_based_prediction_def tilapia_rule_def
        simplified_water_quality_score_def normalize_9)
  from predict_basic_bounds [of service_with_failing_models warm_pond_basic_request]
    predict_basic_bounds [of service_without_water_quality_model warm_pond_basic_request]
    f m v
  show ?thesis by simp
qed

text \<open>
  C6. For every input, each of the two filters returns the catalog's names, in the order
  Tilapia, Catfish, Carp, Salmon, Trout, Shrimp, Goldfish, restricted to the species that
  satisfy its predicate, and the returned list has no duplicate.
\<close>

theorem suitable_species_catalog_order:
  "map fst fish_species_info =
     [''Tilapia'', ''Catfish'', ''Carp'', ''Salmon'', ''Trout'', ''Shrimp'', ''Goldfish'']
   \<and> get_suitable_species_basic data =
       filter (basic_qualifies data) (map fst fish_species_info)
   \<and> distinct (get_suitable_species_basic data)
   \<and> get_suitable_species_advanced data =
       filter (\<lambda>s. basic_qualifies data s \<and> advanced_qualifies data s) (map fst fish_species_info)
   \<and> distinct (get_suitable_species_advanced data)"
proof -
  have b: "get_suitable_species_basic data =
      filter (basic_qualifies data) (map fst fish_species_info)"
    by (rule basic_as_filter)
  have a: "get_suitable_species_advanced data =
      filter (\<lambda>s. basic_qualifies data s \<and> advanced_qualifies data s) (map fst fish_species_info)"
    by (simp add: advanced_as_filter b conj_commute)
  have db: "distinct (get_suitable_species_basic data)"
    unfolding b using distinct_catalog by (rule distinct_filter)
  have da: "distinct (get_suitable_species_advanced data)"
    unfolding a using distinct_catalog by (rule distinct_filter)
  from catalog_names a b da db show ?thesis by blast
qed

text \<open>
  C7. The weighted scorer returns exactly 10 on an input whose only recognised parameter
  is ph = 7.0 (score 1.5 of total weight 1.5), and exactly 5 on an input that holds none
  of ph, temperature and dissolved_oxygen.
\<close>

theorem weighted_score_ph_only_and_empty:
  "(data ''ph'' = Some (Num 7.0) \<and> data ''temperature'' = None \<and> data ''dissolved_oxygen'' = None
      \<longrightarrow> score_ph data (0, 0) = (1.5, 1.5) \<and> calculate_water_quality_score data = 10.0)
   \<and> (data ''ph'' = None \<and> data ''temperature'' = None \<and> data ''dissolved_oxygen'' = None
      \<longrightarrow> calculate_water_quality_score data = 5.0)"
  by (simp add: calculate_water_quality_score_def score_ph_def score_temperature_def
      score_dissolved_oxygen_def Let_def)

theorem weighted_score_ph_only_and_empty_witness:
  "calculate_water_quality_score [''ph'' \<mapsto> Num 7.0, ''bod'' \<mapsto> Num 3.0] = 10.0
   \<and> calculate_water_quality_score [''turbidity'' \<mapsto> Num 45.0] = 5.0"
  using weighted_score_ph_only_and_empty [of "[''ph'' \<mapsto> Num 7.0, ''bod'' \<mapsto> Num 3.0]"]
    weighted_score_ph_only_and_empty [of "[''turbidity'' \<mapsto> Num 45.0]"]
  by simp

text \<open>
  C8. A parameter whose value is exactly 0 has no entry in the analysis of either tier;
  every parameter that the tier recognises and whose value is not 0 has an entry, which
  carries that value and the status optimal or suboptimal.
\<close>

theorem zero_is_absent:
  "(data k = Some (Num 0) \<longrightarrow>
      analyze_parameters_basic data k = None \<and> analyze_parameters_advanced data k = None)
   \<and> (k \<in> {''ph'', ''temperature'', ''turbidity''} \<and> data k = Some v \<and> v \<noteq> Num 0 \<longrightarrow>
        (\<exists>a. analyze_parameters_basic data k = Some a \<and> val a = v
           \<and> (status a = ''optimal'' \<or> status a = ''suboptimal'')))
   \<and> (k \<in> {''ph'', ''temperature'', ''turbidity'', ''dissolved_oxygen'', ''ammonia'', ''nitrite''}
        \<and> data k = Some v \<and> v \<noteq> Num 0 \<longrightarrow>
        (\<exists>a. analyze_parameters_advanced data k = Some a \<and> val a = v
           \<and> (status a = ''optimal'' \<or> status a = ''suboptimal'')))"
proof (intro conjI impI)
  assume "data k = Some (Num 0)"
  then show "analyze_parameters_basic data k = None" by (rule basic_zero)
next
  assume "data k = Some (Num 0)"
  then show "analyze_parameters_advanced data k = None" by (rule advanced_zero)
next
  assume h: "k \<in> {''ph'', ''temperature'', ''turbidity''} \<and> data k = Some v \<and> v \<noteq> Num 0"
  show "\<exists>a. analyze_parameters_basic data k = Some a \<and> val a = v
     \<and> (status a = ''optimal'' \<or> status a = ''suboptimal'')"
    using h by (elim conjE) (rule basic_entry)
next
  assume h: "k \<in> {''ph'', ''temperature'', ''turbidity'', ''dissolved_oxygen'', ''ammonia'',
      ''nitrite''} \<and> data k = Some v \<and> v \<noteq> Num 0"
  show "\<exists>a. analyze_parameters_advanced data k = Some a \<and> val a = v
     \<and> (status a = ''optimal'' \<or> status a = ''suboptimal'')"
    using h by (elim conjE) (rule advanced_entry)
qed

theorem zero_is_absent_witness:
  "sparse_reading ''ph'' = Some (Num 0)
   \<and> analyze_parameters_basic sparse_reading ''ph'' = None
   \<and> analyze_parameters_advanced sparse_reading ''ph'' = None
   \<and> (\<exists>a. analyze_parameters_basic sparse_reading ''temperature'' = Some a \<and> val a = Num 27
        \<and> (status a = ''optimal'' \<or> status a = ''suboptimal''))
   \<and> (\<exists>a. analyze_parameters_advanced sparse_reading ''dissolved_oxygen'' = Some a \<and> val a = Num 3
        \<and> (status a = ''optimal'' \<or> status a = ''suboptimal''))"
  using zero_is_absent [of sparse_reading "''ph''" "Num 0"]
    zero_is_absent [of sparse_reading "''temperature''" "Num 27"]
    zero_is_absent [of sparse_reading "''dissolved_oxygen''" "Num 3"]
  by (simp add: sparse_reading_def)

text \<open>
  C9, as claimed, fails: at ph = 5.0, temperature = 40, turbidity = 150 each parameter
  contributes 1 point and \<^verbatim>\<open>(3 / 9) * 10\<close>, computed in floats, is
  3752999689475413 / 2^50 = 3.333333333333333, which is below 10/3.
\<close>

theorem lowest_score_below_ten_thirds:
  "simplified_water_quality_score (Num 5.0) (Num 40) (Num 150) = 3752999689475413 / 2 ^ 50
   \<and> simplified_water_quality_score (Num 5.0) (Num 40) (Num 150) < 10 / 3"
  by (simp add: simplified_water_quality_score_def Let_def normalize_3)

text \<open>
  C9, amended. The water_quality_score of predict_basic is the banded score of its three
  values, each of which contributes at least 1 of 3 points, and that score lies between
  3752999689475413 / 2^50 (the float that \<^verbatim>\<open>(3 / 9) * 10\<close> evaluates to, less than 2^-50
  below 10/3) and 10 for all values.
\<close>

theorem basic_score_at_least_a_third:
  "water_quality_score (predict_basic self data) =
     Some (simplified_water_quality_score (ph data) (temperature data) (turbidity data))
   \<and> simplified_water_quality_score p t u \<in>
       {normalize_to_ten 3, normalize_to_ten 4, normalize_to_ten 5, normalize_to_ten 6,
        normalize_to_ten 7, normalize_to_ten 8, normalize_to_ten 9}
   \<and> 3752999689475413 / 2 ^ 50 \<le> simplified_water_quality_score p t u
   \<and> 10 / 3 - 1 / 2 ^ 50 < simplified_water_quality_score p t u
   \<and> simplified_water_quality_score p t u \<le> 10"
proof -
  have r: "water_quality_score (predict_basic self data) =
      Some (simplified_water_quality_score (ph data) (temperature data) (turbidity data))"
    by (simp add: predict_basic_def Let_def)
  have b: "3752999689475413 / 2 ^ 50 \<le> simplified_water_quality_score p t u
      \<and> simplified_water_quality_score p t u \<le> 10"
    by (rule simplified_score_bounds)
  have n: "(10 :: real) / 3 - 1 / 2 ^ 50 < 3752999689475413 / 2 ^ 50"
    by simp
  from r b n simplified_score_cases [of p t u] show ?thesis by simp
qed

text \<open>
  C10, as claimed, fails: a pH of NaN passes the truthiness test and fails every
  comparison, so its entry has the status suboptimal and no recommendation.
\<close>

theorem nan_is_suboptimal_without_recommendation:
  "analyze_parameters_basic nan_reading ''ph'' = Some nan_entry
   \<and> analyze_parameters_advanced nan_reading ''ph'' = Some nan_entry
   \<and> status nan_entry = ''suboptimal'' \<and> recommendation nan_entry = None"
  by (simp add: analyze_parameters_advanced_def analyze_parameters_basic_def analyze_other
      analyze_ph_def nan_reading_def nan_entry_def py_gt_NaN)

text \<open>
  C10, amended. In every entry of the analysis of either tier whose value is not NaN, the
  recommendation is present if and only if the status is suboptimal; an entry whose value
  is NaN has the status suboptimal and no recommendation.
\<close>

theorem recommendation_iff_suboptimal:
  "(analyze_parameters_basic data k = Some a \<longrightarrow>
      (val a \<noteq> NaN \<longrightarrow> (recommendation a \<noteq> None \<longleftrightarrow> status a = ''suboptimal''))
      \<and> (val a = NaN \<longrightarrow> status a = ''suboptimal'' \<and> recommendation a = None))
   \<and> (analyze_parameters_advanced data k = Some a \<longrightarrow>
      (val a \<noteq> NaN \<longrightarrow> (recommendation a \<noteq> None \<longleftrightarrow> status a = ''suboptimal''))
      \<and> (val a = NaN \<longrightarrow> status a = ''suboptimal'' \<and> recommendation a = None))"
proof (intro conjI impI)
  assume "analyze_parameters_basic data k = Some a" and "val a \<noteq> NaN"
  then show "recommendation a \<noteq> None \<longleftrightarrow> status a = ''suboptimal''"
    using basic_recommendation [of data k a] by simp
next
  assume "analyze_parameters_basic data k = Some a" and "val a = NaN"
  then show "status a = ''suboptimal''" and "recommendation a = None"
    using basic_recommendation [of data k a] by simp_all
next
  assume "analyze_parameters_advanced data k = Some a" and "val a \<noteq> NaN"
  then show "recommendation a \<noteq> None \<longleftrightarrow> status a = ''suboptimal''"
    using advanced_recommendation [of data k a] by simp
next
  assume "analyze_parameters_advanced data k = Some a" and "val a = NaN"
  then show "status a = ''suboptimal''" and "recommendation a = None"
    using advanced_recommendation [of data k a] by simp_all
qed

theorem recommendation_iff_suboptimal_witness:
  "analyze_parameters_advanced sparse_reading ''dissolved_oxygen'' = Some low_oxygen_entry
   \<and> val low_oxygen_entry \<noteq> NaN
   \<and> recommendation low_oxygen_entry \<noteq> None \<and> status low_oxygen_entry = ''suboptimal''"
proof -
  have e: "analyze_parameters_advanced sparse_reading ''dissolved_oxygen''
      = Some low_oxygen_entry"
    by (simp add: analyze_parameters_advanced_def analyze_other analyze_dissolved_oxygen_def
        sparse_reading_def low_oxygen_entry_def)
  have s: "status low_oxygen_entry = ''suboptimal'' \<and> val low_oxygen_entry \<noteq> NaN"
    by (simp add: low_oxygen_entry_def)
  from recommendation_iff_suboptimal [of sparse_reading "''dissolved_oxygen''" low_oxygen_entry]
    e s
  show ?thesis by simp
qed

end
